theory Spec2Isabelle
  imports Complex_Main "HOL-Library.Sublist"
begin

section \<open>Transaction monitoring (src/python/aml/transaction_monitor.py)\<close>

text \<open>
  A shallow embedding of the class \<open>TransactionMonitor\<close>. Conventions:
  \<^item> \<open>float\<close> amounts are rational numbers. Comparisons and the test \<open>x % 1000 == 0\<close>
    are exact on floats, so they agree with the rational reading of the same value; sums are
    exact here, whereas Python rounds every partial sum to the nearest double.
  \<^item> a \<open>datetime\<close> is the integer number of microseconds since a fixed epoch (the
    resolution of \<open>datetime\<close>), and \<open>timedelta(hours=h)\<close> is \<open>h * 3600 * 10^6\<close>
    microseconds. The range limits of \<open>datetime\<close> (years 1 to 9999) are not modelled.
  \<^item> strings are byte lists; \<open>str.upper\<close> is modelled on ASCII letters and leaves every
    other byte as it is.
  \<^item> the fields \<open>alert_id\<close> (a random UUID) and \<open>created_at\<close> (the wall clock) of an
    alert come from outside the program and are left out of the record. The description
    is a formatted text; the model keeps which template is used and the values formatted
    into it, not the rendered characters.
  \<^item> a method that mutates \<open>self\<close> returns the updated monitor next to its result.
\<close>

subsection \<open>Data model\<close>

datatype TransactionType =
  DEPOSIT | WITHDRAWAL | TRANSFER | CRYPTO_PURCHASE | CRYPTO_SALE | CRYPTO_TRANSFER

datatype AlertType =
  STRUCTURING | VELOCITY | LARGE_TRANSACTION | UNUSUAL_PATTERN
  | HIGH_RISK_JURISDICTION | ROUND_AMOUNT

text \<open>The values a metadata dictionary holds: a float, an int or a string.\<close>

datatype meta_value = MFloat rat | MInt int | MStr string

type_synonym metadata_dict = "(string \<times> meta_value) list"

text \<open>The six f-strings of the module, each with the values it formats.\<close>

datatype description =
  LargeTransactionText rat string
  | StructuringText int rat int
  | VelocityCountText int
  | VelocityVolumeText rat
  | RoundAmountText int
  | JurisdictionText string

record AMLAlert =
  alert_type :: AlertType
  severity :: string
  transaction_ids :: "string list"
  user_id :: string
  description :: description
  metadata :: metadata_dict

record Transaction =
  transaction_id :: string
  user_id :: string
  amount :: rat
  currency :: string
  transaction_type :: TransactionType
  timestamp :: int
  counterparty :: "string option"
  jurisdiction :: "string option"
  blockchain_address :: "string option"

record TransactionMonitor =
  alerts :: "AMLAlert list"
  transaction_history :: "string \<rightharpoonup> Transaction list"

subsection \<open>Class constants\<close>

definition CTR_THRESHOLD :: rat where
  "CTR_THRESHOLD = 10000"

definition STRUCTURING_THRESHOLD :: rat where
  "STRUCTURING_THRESHOLD = 10000"

definition STRUCTURING_WINDOW_HOURS :: int where
  "STRUCTURING_WINDOW_HOURS = 24"

definition MAX_TRANSACTIONS_PER_DAY :: nat where
  "MAX_TRANSACTIONS_PER_DAY = 50"

definition MAX_VOLUME_PER_DAY :: rat where
  "MAX_VOLUME_PER_DAY = 100000"

subsection \<open>Library operations the module uses\<close>

definition timedelta_hours :: "int \<Rightarrow> int" where
  "timedelta_hours h = h * 3600000000"

text \<open>\<open>x % m\<close> on floats, for a positive \<open>m\<close> (the module only divides by 1000 and 500).\<close>

definition py_mod :: "rat \<Rightarrow> rat \<Rightarrow> rat" where
  "py_mod x m = x - m * of_int \<lfloor>x / m\<rfloor>"

definition upper_char :: "char \<Rightarrow> char" where
  "upper_char c =
     (let n = (of_char c :: nat) in if 97 \<le> n \<and> n \<le> 122 then char_of (n - 32) else c)"

definition upper :: "string \<Rightarrow> string" where
  "upper s = map upper_char s"

text \<open>\<open>d.get(k, [])\<close>\<close>

definition get_or_empty :: "('k \<rightharpoonup> 'v list) \<Rightarrow> 'k \<Rightarrow> 'v list" where
  "get_or_empty d k = (case d k of None \<Rightarrow> [] | Some xs \<Rightarrow> xs)"

text \<open>\<open>xs[-10:]\<close>: the last ten elements, the whole list when it is shorter.\<close>

definition last10 :: "'a list \<Rightarrow> 'a list" where
  "last10 xs = drop (length xs - 10) xs"

subsection \<open>The monitor\<close>

text \<open>\<open>__init__\<close>\<close>

definition new_monitor :: TransactionMonitor where
  "new_monitor = \<lparr>alerts = [], transaction_history = Map.empty\<rparr>"

text \<open>\<open>_create_alert\<close>; \<open>metadata or {}\<close> turns an absent dictionary into the empty one.\<close>

definition create_alert ::
  "AlertType \<Rightarrow> string \<Rightarrow> string list \<Rightarrow> string \<Rightarrow> description \<Rightarrow> metadata_dict option
     \<Rightarrow> AMLAlert" where
  "create_alert ty sev ids uid descr md =
     \<lparr>alert_type = ty, severity = sev, transaction_ids = ids, AMLAlert.user_id = uid,
      description = descr, metadata = (case md of None \<Rightarrow> [] | Some m \<Rightarrow> m)\<rparr>"

text \<open>
  The test \<open>amount % 1000 == 0 or amount % 500 == 0\<close>, written twice in
  \<open>_check_round_amounts\<close> (lines 199 and 205).
\<close>

definition is_round_amount :: "rat \<Rightarrow> bool" where
  "is_round_amount a \<longleftrightarrow> py_mod a 1000 = 0 \<or> py_mod a 500 = 0"

text \<open>Lines 95 to 103 of \<open>monitor_transaction\<close>: the CTR check, as the alerts it appends.\<close>

definition large_transaction_check :: "Transaction \<Rightarrow> AMLAlert list" where
  "large_transaction_check txn =
     (if amount txn \<ge> CTR_THRESHOLD
      then [create_alert LARGE_TRANSACTION ''high'' [transaction_id txn] (user_id txn)
              (LargeTransactionText (amount txn) (currency txn)) None]
      else [])"

definition check_structuring :: "TransactionMonitor \<Rightarrow> Transaction \<Rightarrow> AMLAlert option" where
  "check_structuring self txn =
     (let user_txns = get_or_empty (transaction_history self) (user_id txn);
          cutoff_time = timestamp txn - timedelta_hours STRUCTURING_WINDOW_HOURS;
          recent_txns = filter (\<lambda>t. timestamp t \<ge> cutoff_time
                                  \<and> transaction_type t = transaction_type txn) user_txns
      in if length recent_txns < 3 then None
         else
           let total_amount = sum_list (map amount recent_txns) in
           if total_amount \<ge> STRUCTURING_THRESHOLD then
             (let all_below_threshold = list_all (\<lambda>t. amount t < CTR_THRESHOLD) recent_txns in
              if all_below_threshold \<and> length recent_txns \<ge> 3 then
                Some (create_alert STRUCTURING ''critical''
                        (map transaction_id recent_txns) (user_id txn)
                        (StructuringText (int (length recent_txns)) total_amount
                           STRUCTURING_WINDOW_HOURS)
                        (Some [(''total_amount'', MFloat total_amount),
                               (''transaction_count'', MInt (int (length recent_txns)))]))
              else None)
           else None)"

text \<open>
  Lines 164 to 168 of \<open>_check_velocity\<close>: the account's stored transactions that are not
  older than 24 hours before the transaction at hand.
\<close>

definition recent_txns :: "TransactionMonitor \<Rightarrow> Transaction \<Rightarrow> Transaction list" where
  "recent_txns self txn =
     (let user_txns = get_or_empty (transaction_history self) (user_id txn);
          cutoff_time = timestamp txn - timedelta_hours 24
      in filter (\<lambda>t. timestamp t \<ge> cutoff_time) user_txns)"

definition check_velocity :: "TransactionMonitor \<Rightarrow> Transaction \<Rightarrow> AMLAlert option" where
  "check_velocity self txn =
     (let recent = recent_txns self txn
      in if length recent > MAX_TRANSACTIONS_PER_DAY then
           Some (create_alert VELOCITY ''high''
                   (map transaction_id (last10 recent)) (user_id txn)
                   (VelocityCountText (int (length recent)))
                   (Some [(''transaction_count'', MInt (int (length recent)))]))
         else
           let total_volume = sum_list (map amount recent) in
           if total_volume > MAX_VOLUME_PER_DAY then
             Some (create_alert VELOCITY ''high''
                     (map transaction_id (last10 recent)) (user_id txn)
                     (VelocityVolumeText total_volume)
                     (Some [(''total_volume'', MFloat total_volume)]))
           else None)"

definition check_round_amounts :: "TransactionMonitor \<Rightarrow> Transaction \<Rightarrow> AMLAlert option" where
  "check_round_amounts self txn =
     (if amount txn \<ge> 1000 then
        if is_round_amount (amount txn) then
          (let user_txns = get_or_empty (transaction_history self) (user_id txn);
               cutoff_time = timestamp txn - timedelta_hours 24;
               recent_round_txns = filter (\<lambda>t. timestamp t \<ge> cutoff_time
                                             \<and> is_round_amount (amount t)) user_txns
           in if length recent_round_txns \<ge> 3 then
                Some (create_alert ROUND_AMOUNT ''medium''
                        (map transaction_id recent_round_txns) (user_id txn)
                        (RoundAmountText (int (length recent_round_txns)))
                        (Some [(''transaction_count'', MInt (int (length recent_round_txns)))]))
              else None)
        else None
      else None)"

definition high_risk_jurisdictions :: "string list" where
  "high_risk_jurisdictions = [''IRAN'', ''NORTH KOREA'', ''SYRIA'', ''MYANMAR'']"

text \<open>
  \<open>transaction.jurisdiction and ...\<close>: \<open>None\<close> and the empty string are both falsy, so
  neither reaches the membership test.
\<close>

definition check_jurisdiction :: "TransactionMonitor \<Rightarrow> Transaction \<Rightarrow> AMLAlert option" where
  "check_jurisdiction self txn =
     (case jurisdiction txn of
        None \<Rightarrow> None
      | Some j \<Rightarrow>
          if j \<noteq> [] \<and> upper j \<in> set high_risk_jurisdictions then
            Some (create_alert HIGH_RISK_JURISDICTION ''critical''
                    [transaction_id txn] (user_id txn)
                    (JurisdictionText j)
                    (Some [(''jurisdiction'', MStr j)]))
          else None)"

text \<open>
  Lines 90 to 93: the account's list is created on first use, then the transaction is
  appended to it. After the first step the key is present, so the lookup cannot fail.
\<close>

definition store_transaction :: "TransactionMonitor \<Rightarrow> Transaction \<Rightarrow> TransactionMonitor" where
  "store_transaction self txn =
     (let h = transaction_history self;
          h1 = (if user_id txn \<notin> dom h then h(user_id txn \<mapsto> []) else h)
      in self\<lparr>transaction_history :=
                h1(user_id txn \<mapsto> get_or_empty h1 (user_id txn) @ [txn])\<rparr>)"

text \<open>
  \<open>if alert: alerts.append(alert)\<close>: an \<open>AMLAlert\<close> object is always truthy, so the
  test is \<open>alert is not None\<close>.
\<close>

definition append_if_present :: "AMLAlert list \<Rightarrow> AMLAlert option \<Rightarrow> AMLAlert list" where
  "append_if_present as r = (case r of None \<Rightarrow> as | Some a \<Rightarrow> as @ [a])"

definition monitor_transaction ::
  "TransactionMonitor \<Rightarrow> Transaction \<Rightarrow> AMLAlert list \<times> TransactionMonitor" where
  "monitor_transaction self txn =
     (let alerts0 = [];
          self1 = store_transaction self txn;
          alerts1 = alerts0 @ large_transaction_check txn;
          alerts2 = append_if_present alerts1 (check_structuring self1 txn);
          alerts3 = append_if_present alerts2 (check_velocity self1 txn);
          alerts4 = append_if_present alerts3 (check_round_amounts self1 txn);
          alerts5 = append_if_present alerts4 (check_jurisdiction self1 txn)
      in (alerts5, self1\<lparr>alerts := alerts self1 @ alerts5\<rparr>))"

definition get_alerts_by_user :: "TransactionMonitor \<Rightarrow> string \<Rightarrow> AMLAlert list" where
  "get_alerts_by_user self uid = filter (\<lambda>a. AMLAlert.user_id a = uid) (alerts self)"

definition get_alerts_by_severity :: "TransactionMonitor \<Rightarrow> string \<Rightarrow> AMLAlert list" where
  "get_alerts_by_severity self sev = filter (\<lambda>a. severity a = sev) (alerts self)"

subsection \<open>Notions used in the statements\<close>

text \<open>The monitor after a sequence of calls of \<open>monitor_transaction\<close> on a new instance.\<close>

definition run :: "Transaction list \<Rightarrow> TransactionMonitor" where
  "run txns = foldl (\<lambda>s t. snd (monitor_transaction s t)) new_monitor txns"

text \<open>The result of a rule as a list: empty when the rule returns \<open>None\<close>.\<close>

definition present :: "'a option \<Rightarrow> 'a list" where
  "present r = (case r of None \<Rightarrow> [] | Some a \<Rightarrow> [a])"

text \<open>
  The constructor call \<open>Transaction(transaction_id, user_id, amount, currency,
  transaction_type, timestamp)\<close>, the three optional fields at their default \<open>None\<close>.
\<close>

definition mk_transaction ::
  "string \<Rightarrow> string \<Rightarrow> rat \<Rightarrow> string \<Rightarrow> TransactionType \<Rightarrow> int \<Rightarrow> Transaction" where
  "mk_transaction tid uid amt cur ty ts =
     \<lparr>transaction_id = tid, user_id = uid, amount = amt, currency = cur,
      transaction_type = ty, timestamp = ts, counterparty = None, jurisdiction = None,
      blockchain_address = None\<rparr>"

text \<open>One hour in microseconds, for writing timestamps.\<close>

definition hour :: int where
  "hour = 3600000000"

text \<open>
  The window as the specification words it (section 4.1): the account's transactions
  with a timestamp in the closed interval from \<open>end_time - duration\<close> to \<open>end_time\<close>,
  in insertion order.
\<close>

definition window_spec ::
  "TransactionMonitor \<Rightarrow> string \<Rightarrow> int \<Rightarrow> int \<Rightarrow> Transaction list" where
  "window_spec self account end_time duration =
     filter (\<lambda>t. end_time - duration \<le> timestamp t \<and> timestamp t \<le> end_time)
       (get_or_empty (transaction_history self) account)"

text \<open>
  An alert refers to recorded transactions: its list of ids is not empty and every id
  in it is the id of a transaction stored under the alert's account.
\<close>

definition alert_ids_recorded :: "TransactionMonitor \<Rightarrow> AMLAlert \<Rightarrow> bool" where
  "alert_ids_recorded self a \<longleftrightarrow>
     transaction_ids a \<noteq> [] \<and>
     set (transaction_ids a)
       \<subseteq> set (map transaction_id
                (get_or_empty (transaction_history self) (AMLAlert.user_id a)))"

section \<open>Auxiliary facts\<close>

lemma append_if_present_eq: "append_if_present as r = as @ present r"
  by (simp add: append_if_present_def present_def split: option.split)

lemma history_stored:
  "transaction_history (store_transaction self txn) =
     (transaction_history self)(user_id txn \<mapsto>
        get_or_empty (transaction_history self) (user_id txn) @ [txn])"
  by (auto simp: store_transaction_def get_or_empty_def Let_def dom_def split: option.splits)

lemma alerts_stored: "alerts (store_transaction self txn) = alerts self"
  by (simp add: store_transaction_def Let_def)

lemma get_stored_same:
  "get_or_empty (transaction_history (store_transaction self txn)) (user_id txn) =
     get_or_empty (transaction_history self) (user_id txn) @ [txn]"
  by (simp add: history_stored get_or_empty_def)

lemma get_stored_other:
  "u \<noteq> user_id txn \<Longrightarrow>
     get_or_empty (transaction_history (store_transaction self txn)) u =
     get_or_empty (transaction_history self) u"
  by (simp add: history_stored get_or_empty_def)

lemma monitor_fst:
  "fst (monitor_transaction self txn) =
     large_transaction_check txn
     @ present (check_structuring (store_transaction self txn) txn)
     @ present (check_velocity (store_transaction self txn) txn)
     @ present (check_round_amounts (store_transaction self txn) txn)
     @ present (check_jurisdiction (store_transaction self txn) txn)"
  by (simp add: monitor_transaction_def Let_def append_if_present_eq)

lemma monitor_snd:
  "snd (monitor_transaction self txn) =
     (store_transaction self txn)\<lparr>alerts := alerts self @ fst (monitor_transaction self txn)\<rparr>"
  by (simp add: monitor_transaction_def Let_def alerts_stored)

lemma large_type: "a \<in> set (large_transaction_check txn) \<Longrightarrow> alert_type a = LARGE_TRANSACTION"
  by (auto simp: large_transaction_check_def create_alert_def split: if_splits)

lemma structuring_type: "check_structuring s txn = Some a \<Longrightarrow> alert_type a = STRUCTURING"
  by (auto simp: check_structuring_def create_alert_def Let_def split: if_splits)

lemma velocity_type: "check_velocity s txn = Some a \<Longrightarrow> alert_type a = VELOCITY"
  by (auto simp: check_velocity_def create_alert_def Let_def split: if_splits)

lemma round_type: "check_round_amounts s txn = Some a \<Longrightarrow> alert_type a = ROUND_AMOUNT"
  by (auto simp: check_round_amounts_def create_alert_def Let_def split: if_splits)

lemma jurisdiction_type:
  "check_jurisdiction s txn = Some a \<Longrightarrow> alert_type a = HIGH_RISK_JURISDICTION"
  by (auto simp: check_jurisdiction_def create_alert_def Let_def split: if_splits option.splits)

lemma filter_present_other:
  "(\<And>a. r = Some a \<Longrightarrow> \<not> P a) \<Longrightarrow> filter P (present r) = []"
  by (cases r) (auto simp: present_def)

lemma filter_present_same:
  "(\<And>a. r = Some a \<Longrightarrow> P a) \<Longrightarrow> filter P (present r) = present r"
  by (cases r) (auto simp: present_def)

lemma filter_large_other:
  "ty \<noteq> LARGE_TRANSACTION \<Longrightarrow> filter (\<lambda>a. alert_type a = ty) (large_transaction_check txn) = []"
  by (simp add: large_transaction_check_def create_alert_def)

text \<open>The alerts of one kind in the result of a call come from the rule of that kind.\<close>

lemma monitor_large:
  "filter (\<lambda>a. alert_type a = LARGE_TRANSACTION) (fst (monitor_transaction self txn)) =
     large_transaction_check txn"
proof -
  let ?P = "\<lambda>a. alert_type a = LARGE_TRANSACTION"
  let ?s = "store_transaction self txn"
  have 1: "filter ?P (present (check_structuring ?s txn)) = []"
    by (rule filter_present_other) (auto dest: structuring_type)
  have 2: "filter ?P (present (check_velocity ?s txn)) = []"
    by (rule filter_present_other) (auto dest: velocity_type)
  have 3: "filter ?P (present (check_round_amounts ?s txn)) = []"
    by (rule filter_present_other) (auto dest: round_type)
  have 4: "filter ?P (present (check_jurisdiction ?s txn)) = []"
    by (rule filter_present_other) (auto dest: jurisdiction_type)
  have 5: "filter ?P (large_transaction_check txn) = large_transaction_check txn"
    by (simp add: large_transaction_check_def create_alert_def)
  show ?thesis
    unfolding monitor_fst filter_append 1 2 3 4 5 by simp
qed

lemma monitor_structuring:
  "filter (\<lambda>a. alert_type a = STRUCTURING) (fst (monitor_transaction self txn)) =
     present (check_structuring (store_transaction self txn) txn)"
proof -
  let ?P = "\<lambda>a. alert_type a = STRUCTURING"
  let ?s = "store_transaction self txn"
  have 1: "filter ?P (present (check_structuring ?s txn)) = present (check_structuring ?s txn)"
    by (rule filter_present_same) (auto dest: structuring_type)
  have 2: "filter ?P (present (check_velocity ?s txn)) = []"
    by (rule filter_present_other) (auto dest: velocity_type)
  have 3: "filter ?P (present (check_round_amounts ?s txn)) = []"
    by (rule filter_present_other) (auto dest: round_type)
  have 4: "filter ?P (present (check_jurisdiction ?s txn)) = []"
    by (rule filter_present_other) (auto dest: jurisdiction_type)
  have 5: "filter ?P (large_transaction_check txn) = []"
    by (simp add: filter_large_other)
  show ?thesis
    unfolding monitor_fst filter_append 1 2 3 4 5 by simp
qed






lemma structuring_window_stored:
  "filter (\<lambda>t. timestamp txn - timedelta_hours STRUCTURING_WINDOW_HOURS \<le> timestamp t
               \<and> transaction_type t = transaction_type txn)
     (get_or_empty (transaction_history (store_transaction self txn)) (user_id txn)) =
   filter (\<lambda>t. timestamp txn - 86400000000 \<le> timestamp t
               \<and> transaction_type t = transaction_type txn)
     (get_or_empty (transaction_history self) (user_id txn)) @ [txn]"
  by (simp add: get_stored_same timedelta_hours_def STRUCTURING_WINDOW_HOURS_def)







lemma current_in_structuring_window:
  "check_structuring (store_transaction self txn) txn = Some a \<Longrightarrow> amount txn < CTR_THRESHOLD"
  unfolding check_structuring_def Let_def structuring_window_stored
  by (simp split: if_splits)

lemma recorded_alerts_update:
  "alert_ids_recorded (s\<lparr>alerts := x\<rparr>) a = alert_ids_recorded s a"
  by (simp add: alert_ids_recorded_def)

lemma last10_empty: "last10 xs = [] \<longleftrightarrow> xs = []"
  by (cases xs) (auto simp: last10_def)

lemma set_last10: "set (last10 xs) \<subseteq> set xs"
  by (simp add: last10_def set_drop_subset)

lemma structuring_recorded:
  "check_structuring s txn = Some a \<Longrightarrow> alert_ids_recorded s a"
  unfolding check_structuring_def Let_def alert_ids_recorded_def create_alert_def
  by (auto split: if_splits)

lemma velocity_recorded:
  assumes "check_velocity s txn = Some a"
  shows "alert_ids_recorded s a"
proof -
  let ?w = "recent_txns s txn"
  have sub: "set ?w \<subseteq> set (get_or_empty (transaction_history s) (user_id txn))"
    by (auto simp: recent_txns_def Let_def)
  from assms have ne: "?w \<noteq> []"
    by (auto simp: check_velocity_def Let_def MAX_VOLUME_PER_DAY_def split: if_splits)
  from assms have ids: "transaction_ids a = map transaction_id (last10 ?w)"
    and uid: "AMLAlert.user_id a = user_id txn"
    by (auto simp: check_velocity_def Let_def create_alert_def split: if_splits)
  have "set (last10 ?w) \<subseteq> set (get_or_empty (transaction_history s) (user_id txn))"
    using set_last10 [of ?w] sub by blast
  with ne ids uid show ?thesis
    by (auto simp: alert_ids_recorded_def last10_empty)
qed

lemma round_recorded:
  "check_round_amounts s txn = Some a \<Longrightarrow> alert_ids_recorded s a"
  unfolding check_round_amounts_def Let_def alert_ids_recorded_def create_alert_def
  by (auto split: if_splits)

lemma large_recorded:
  "a \<in> set (large_transaction_check txn) \<Longrightarrow>
     alert_ids_recorded (store_transaction self txn) a"
  by (auto simp: large_transaction_check_def create_alert_def alert_ids_recorded_def
      get_stored_same split: if_splits)

lemma jurisdiction_recorded:
  "check_jurisdiction s txn = Some a \<Longrightarrow>
     alert_ids_recorded (store_transaction self txn) a"
  by (auto simp: check_jurisdiction_def create_alert_def alert_ids_recorded_def
      get_stored_same split: if_splits option.splits)

lemma recorded_mono:
  "alert_ids_recorded self a \<Longrightarrow> alert_ids_recorded (store_transaction self txn) a"
  by (cases "AMLAlert.user_id a = user_id txn")
    (auto simp: alert_ids_recorded_def get_stored_same get_stored_other)

lemma new_alerts_recorded:
  assumes "a \<in> set (fst (monitor_transaction self txn))"
  shows "alert_ids_recorded (snd (monitor_transaction self txn)) a"
proof -
  let ?s = "store_transaction self txn"
  from assms consider
      "a \<in> set (large_transaction_check txn)"
    | "check_structuring ?s txn = Some a"
    | "check_velocity ?s txn = Some a"
    | "check_round_amounts ?s txn = Some a"
    | "check_jurisdiction ?s txn = Some a"
    by (auto simp: monitor_fst present_def split: option.splits)
  then have "alert_ids_recorded ?s a"
    by cases (auto intro: large_recorded structuring_recorded velocity_recorded
        round_recorded jurisdiction_recorded)
  then show ?thesis
    by (simp add: monitor_snd recorded_alerts_update)
qed

lemma old_alerts_recorded:
  "alert_ids_recorded self a \<Longrightarrow> alert_ids_recorded (snd (monitor_transaction self txn)) a"
  by (simp add: monitor_snd recorded_alerts_update recorded_mono)

lemma run_snoc: "run (txns @ [t]) = snd (monitor_transaction (run txns) t)"
  by (simp add: run_def)

lemma run_recorded: "a \<in> set (alerts (run txns)) \<Longrightarrow> alert_ids_recorded (run txns) a"
proof (induction txns arbitrary: a rule: rev_induct)
  case Nil
  then show ?case by (simp add: run_def new_monitor_def)
next
  case (snoc t txns)
  from snoc.prems have "a \<in> set (alerts (run txns)) \<or> a \<in> set (fst (monitor_transaction (run txns) t))"
    by (simp add: run_snoc monitor_snd)
  then show ?case
    unfolding run_snoc
    using snoc.IH new_alerts_recorded old_alerts_recorded by blast
qed

lemma run_prefix: "prefix (alerts (run txns)) (alerts (run (txns @ later)))"
proof (induction later rule: rev_induct)
  case Nil
  then show ?case by simp
next
  case (snoc t later)
  have "alerts (run (txns @ later @ [t])) =
      alerts (run (txns @ later)) @ fst (monitor_transaction (run (txns @ later)) t)"
    using run_snoc [of "txns @ later" t] by (simp add: monitor_snd)
  with snoc.IH show ?case
    by (simp add: prefix_def) (metis append.assoc)
qed

lemma recent_txns_closed_interval:
  assumes "list_all (\<lambda>t. timestamp t \<le> timestamp txn)
             (get_or_empty (transaction_history self) (user_id txn))"
  shows "recent_txns self txn =
           window_spec self (user_id txn) (timestamp txn) (timedelta_hours 24)"
  using assms unfolding recent_txns_def window_spec_def Let_def list_all_iff
  by (auto intro: filter_cong)

section \<open>The rules\<close>

text \<open>
  C5. In every call of \<open>monitor_transaction\<close>, the large-transaction alerts among the
  returned alerts are: exactly one, of severity high, referring to the monitored
  transaction only, when its amount is at least 10 000 (the amount as given, whatever
  the currency); none otherwise. The witness evaluates the rule at the amounts 10 000
  (one alert) and 9 999.99 (none).
\<close>

theorem large_transaction_rule:
  "filter (\<lambda>a. alert_type a = LARGE_TRANSACTION) (fst (monitor_transaction self txn)) =
     (if amount txn \<ge> 10000
      then [\<lparr>alert_type = LARGE_TRANSACTION, severity = ''high'',
              transaction_ids = [transaction_id txn], AMLAlert.user_id = user_id txn,
              description = LargeTransactionText (amount txn) (currency txn),
              metadata = []\<rparr>]
      else [])"
  by (simp add: monitor_large large_transaction_check_def create_alert_def CTR_THRESHOLD_def)

theorem large_transaction_rule_witness:
  "length (filter (\<lambda>a. alert_type a = LARGE_TRANSACTION)
     (fst (monitor_transaction new_monitor
        (mk_transaction ''tx_001'' ''user_001'' 10000 ''USD'' WITHDRAWAL 0)))) = 1
   \<and> filter (\<lambda>a. alert_type a = LARGE_TRANSACTION)
     (fst (monitor_transaction new_monitor
        (mk_transaction ''tx_002'' ''user_001'' (999999 / 100) ''USD'' WITHDRAWAL 0))) = []"
  using large_transaction_rule [of new_monitor "mk_transaction ''tx_001'' ''user_001'' 10000 ''USD'' WITHDRAWAL 0"]
    large_transaction_rule [of new_monitor "mk_transaction ''tx_002'' ''user_001'' (999999 / 100) ''USD'' WITHDRAWAL 0"]
  by (simp add: mk_transaction_def)









section \<open>The call as a whole\<close>



text \<open>
  C9. No call of \<open>monitor_transaction\<close> returns both a large-transaction alert and a
  structuring alert: an amount of at least 10 000 is in the structuring window (the
  transaction has just been stored, is of its own kind and account, and is not older
  than itself), so the test that every amount of the window is strictly below the
  threshold fails and the structuring rule returns nothing.
\<close>

theorem large_excludes_structuring:
  "\<not> (LARGE_TRANSACTION \<in> set (map alert_type (fst (monitor_transaction self txn)))
      \<and> STRUCTURING \<in> set (map alert_type (fst (monitor_transaction self txn))))
   \<and> \<not> (10000 \<le> amount txn \<and> check_structuring (store_transaction self txn) txn \<noteq> None)"
proof -
  let ?res = "fst (monitor_transaction self txn)"
  have 2: "\<not> (10000 \<le> amount txn \<and> check_structuring (store_transaction self txn) txn \<noteq> None)"
    using current_in_structuring_window [of self txn]
    by (cases "check_structuring (store_transaction self txn) txn") (auto simp: CTR_THRESHOLD_def)
  have l: "LARGE_TRANSACTION \<in> set (map alert_type ?res) \<Longrightarrow> 10000 \<le> amount txn"
  proof -
    assume "LARGE_TRANSACTION \<in> set (map alert_type ?res)"
    then obtain x where "x \<in> set ?res" and "alert_type x = LARGE_TRANSACTION"
      by auto
    then have "filter (\<lambda>a. alert_type a = LARGE_TRANSACTION) ?res \<noteq> []"
      by (auto simp: filter_empty_conv)
    then show ?thesis
      by (auto simp: monitor_large large_transaction_check_def CTR_THRESHOLD_def split: if_splits)
  qed
  have s: "STRUCTURING \<in> set (map alert_type ?res) \<Longrightarrow>
      check_structuring (store_transaction self txn) txn \<noteq> None"
  proof -
    assume "STRUCTURING \<in> set (map alert_type ?res)"
    then obtain x where "x \<in> set ?res" and "alert_type x = STRUCTURING"
      by auto
    then have "filter (\<lambda>a. alert_type a = STRUCTURING) ?res \<noteq> []"
      by (auto simp: filter_empty_conv)
    then show ?thesis
      by (auto simp: monitor_structuring present_def split: option.splits)
  qed
  from 2 l s show ?thesis by blast
qed

theorem large_excludes_structuring_witness:
  "STRUCTURING \<in> set (map alert_type (fst (monitor_transaction
      (run [mk_transaction ''tx_0'' ''user_001'' 9500 ''USD'' WITHDRAWAL 0,
            mk_transaction ''tx_1'' ''user_001'' 9500 ''USD'' WITHDRAWAL hour])
      (mk_transaction ''tx_2'' ''user_001'' 9500 ''USD'' WITHDRAWAL (2 * hour)))))
   \<and> LARGE_TRANSACTION \<notin> set (map alert_type (fst (monitor_transaction
      (run [mk_transaction ''tx_0'' ''user_001'' 9500 ''USD'' WITHDRAWAL 0,
            mk_transaction ''tx_1'' ''user_001'' 9500 ''USD'' WITHDRAWAL hour])
      (mk_transaction ''tx_2'' ''user_001'' 9500 ''USD'' WITHDRAWAL (2 * hour)))))
   \<and> LARGE_TRANSACTION \<in> set (map alert_type (fst (monitor_transaction
      (run [mk_transaction ''tx_0'' ''user_001'' 9500 ''USD'' WITHDRAWAL 0,
            mk_transaction ''tx_1'' ''user_001'' 9500 ''USD'' WITHDRAWAL hour])
      (mk_transaction ''tx_2'' ''user_001'' 15000 ''USD'' WITHDRAWAL (2 * hour)))))
   \<and> STRUCTURING \<notin> set (map alert_type (fst (monitor_transaction
      (run [mk_transaction ''tx_0'' ''user_001'' 9500 ''USD'' WITHDRAWAL 0,
            mk_transaction ''tx_1'' ''user_001'' 9500 ''USD'' WITHDRAWAL hour])
      (mk_transaction ''tx_2'' ''user_001'' 15000 ''USD'' WITHDRAWAL (2 * hour)))))"
proof -
  let ?s = "run [mk_transaction ''tx_0'' ''user_001'' 9500 ''USD'' WITHDRAWAL 0,
            mk_transaction ''tx_1'' ''user_001'' 9500 ''USD'' WITHDRAWAL hour]"
  have a: "STRUCTURING \<in> set (map alert_type (fst (monitor_transaction ?s
      (mk_transaction ''tx_2'' ''user_001'' 9500 ''USD'' WITHDRAWAL (2 * hour)))))"
    by code_simp
  have b: "LARGE_TRANSACTION \<in> set (map alert_type (fst (monitor_transaction ?s
      (mk_transaction ''tx_2'' ''user_001'' 15000 ''USD'' WITHDRAWAL (2 * hour)))))"
    by code_simp
  show ?thesis
    using a b
      large_excludes_structuring [of ?s "mk_transaction ''tx_2'' ''user_001'' 9500 ''USD'' WITHDRAWAL (2 * hour)"]
      large_excludes_structuring [of ?s "mk_transaction ''tx_2'' ''user_001'' 15000 ''USD'' WITHDRAWAL (2 * hour)"]
    by blast
qed

text \<open>
  C10. A call of \<open>monitor_transaction\<close> with a transaction of account A leaves the list
  stored under every other account as it was, makes the list of A its previous list
  (empty if there was none) followed by the new transaction, and makes the stored
  alerts the previous ones followed by the returned ones.
\<close>

theorem monitor_frame:
  "transaction_history (snd (monitor_transaction self txn)) (user_id txn) =
     Some (get_or_empty (transaction_history self) (user_id txn) @ [txn])
   \<and> (\<forall>u. u \<noteq> user_id txn \<longrightarrow>
          transaction_history (snd (monitor_transaction self txn)) u = transaction_history self u)
   \<and> alerts (snd (monitor_transaction self txn)) =
       alerts self @ fst (monitor_transaction self txn)"
  by (simp add: monitor_snd history_stored)

theorem monitor_frame_witness:
  "transaction_history (snd (monitor_transaction
      (run [mk_transaction ''tx_0'' ''user_a'' 100 ''USD'' DEPOSIT 0,
            mk_transaction ''tx_1'' ''user_b'' 200 ''USD'' DEPOSIT hour])
      (mk_transaction ''tx_2'' ''user_a'' 300 ''USD'' DEPOSIT (2 * hour)))) ''user_b''
   = transaction_history
      (run [mk_transaction ''tx_0'' ''user_a'' 100 ''USD'' DEPOSIT 0,
            mk_transaction ''tx_1'' ''user_b'' 200 ''USD'' DEPOSIT hour]) ''user_b''
   \<and> map_option (map transaction_id) (transaction_history (snd (monitor_transaction
      (run [mk_transaction ''tx_0'' ''user_a'' 100 ''USD'' DEPOSIT 0,
            mk_transaction ''tx_1'' ''user_b'' 200 ''USD'' DEPOSIT hour])
      (mk_transaction ''tx_2'' ''user_a'' 300 ''USD'' DEPOSIT (2 * hour)))) ''user_a'')
   = Some [''tx_0'', ''tx_2'']"
proof -
  let ?s = "run [mk_transaction ''tx_0'' ''user_a'' 100 ''USD'' DEPOSIT 0,
            mk_transaction ''tx_1'' ''user_b'' 200 ''USD'' DEPOSIT hour]"
  let ?t = "mk_transaction ''tx_2'' ''user_a'' 300 ''USD'' DEPOSIT (2 * hour)"
  have u: "user_id ?t = ''user_a''" "''user_b'' \<noteq> user_id ?t"
    by (simp_all add: mk_transaction_def)
  have h: "map transaction_id (get_or_empty (transaction_history ?s) ''user_a'' @ [?t])
     = [''tx_0'', ''tx_2'']"
    by code_simp
  show ?thesis
    using monitor_frame [of ?s ?t] u h by (simp del: map_append)
qed

section \<open>Alerts and the history\<close>

text \<open>
  C8. In every state reached from a new monitor by calls of \<open>monitor_transaction\<close>, every
  stored alert has a list of transaction ids that is not empty and holds only ids of
  transactions stored under the alert's account. This holds for the alerts a call
  returns, in the state the call leaves (whatever state it started from), and it
  stays true because histories only grow. No alert is removed or changed afterwards:
  the stored alerts of a state are a prefix of the stored alerts of every state reached
  from it by further calls. The two query methods return lists and leave the monitor as
  it is.
\<close>

theorem alerts_recorded_and_kept:
  "list_all (alert_ids_recorded (run txns)) (alerts (run txns))
   \<and> list_all (alert_ids_recorded (snd (monitor_transaction self txn)))
        (fst (monitor_transaction self txn))
   \<and> prefix (alerts (run txns)) (alerts (run (txns @ later)))"
  by (simp add: list_all_iff run_recorded new_alerts_recorded run_prefix)

theorem alerts_recorded_and_kept_witness:
  "map transaction_ids (alerts (run
      [mk_transaction ''tx_0'' ''user_001'' 9400 ''USD'' WITHDRAWAL 0,
       mk_transaction ''tx_1'' ''user_001'' 9400 ''USD'' WITHDRAWAL hour,
       mk_transaction ''tx_2'' ''user_001'' 9400 ''USD'' WITHDRAWAL (2 * hour)]))
     = [[''tx_0'', ''tx_1'', ''tx_2'']]
   \<and> list_all (alert_ids_recorded (run
      [mk_transaction ''tx_0'' ''user_001'' 9400 ''USD'' WITHDRAWAL 0,
       mk_transaction ''tx_1'' ''user_001'' 9400 ''USD'' WITHDRAWAL hour,
       mk_transaction ''tx_2'' ''user_001'' 9400 ''USD'' WITHDRAWAL (2 * hour)]))
     (alerts (run
      [mk_transaction ''tx_0'' ''user_001'' 9400 ''USD'' WITHDRAWAL 0,
       mk_transaction ''tx_1'' ''user_001'' 9400 ''USD'' WITHDRAWAL hour,
       mk_transaction ''tx_2'' ''user_001'' 9400 ''USD'' WITHDRAWAL (2 * hour)]))"
proof -
  let ?txns = "[mk_transaction ''tx_0'' ''user_001'' 9400 ''USD'' WITHDRAWAL 0,
       mk_transaction ''tx_1'' ''user_001'' 9400 ''USD'' WITHDRAWAL hour,
       mk_transaction ''tx_2'' ''user_001'' 9400 ''USD'' WITHDRAWAL (2 * hour)]"
  have e: "map transaction_ids (alerts (run ?txns)) = [[''tx_0'', ''tx_1'', ''tx_2'']]"
    by code_simp
  from alerts_recorded_and_kept [of ?txns]
  have "list_all (alert_ids_recorded (run ?txns)) (alerts (run ?txns))"
    by (rule conjunct1)
  with e show ?thesis by (rule conjI)
qed

section \<open>The window\<close>

text \<open>
  C1. The claim is that the 24-hour window of the rules holds exactly the account's
  stored transactions with a timestamp between 24 hours before the monitored
  transaction and the monitored transaction itself, in whatever order they were
  submitted. The comprehensions of lines 136 to 139, 168 and 203 to 206 only test
  \<open>txn.timestamp >= cutoff_time\<close>. The theorem evaluates the code where two withdrawals
  stamped at hours 100 and 101 were submitted before one stamped at hour 0: the window
  of the third call holds all three, the closed interval holds the third only, and the
  call returns a structuring alert over all three. The lemma
  \<open>recent_txns_closed_interval\<close> shows that the two windows agree when no stored
  transaction of the account is later than the monitored one.
\<close>

theorem window_admits_later_transactions:
  "map transaction_id
     (recent_txns
        (store_transaction
           (run [mk_transaction ''tx_a'' ''user_001'' 9400 ''USD'' WITHDRAWAL (100 * hour),
                 mk_transaction ''tx_b'' ''user_001'' 9400 ''USD'' WITHDRAWAL (101 * hour)])
           (mk_transaction ''tx_c'' ''user_001'' 9400 ''USD'' WITHDRAWAL 0))
        (mk_transaction ''tx_c'' ''user_001'' 9400 ''USD'' WITHDRAWAL 0))
     = [''tx_a'', ''tx_b'', ''tx_c'']
   \<and> map transaction_id
     (window_spec
        (store_transaction
           (run [mk_transaction ''tx_a'' ''user_001'' 9400 ''USD'' WITHDRAWAL (100 * hour),
                 mk_transaction ''tx_b'' ''user_001'' 9400 ''USD'' WITHDRAWAL (101 * hour)])
           (mk_transaction ''tx_c'' ''user_001'' 9400 ''USD'' WITHDRAWAL 0))
        ''user_001'' 0 (timedelta_hours 24))
     = [''tx_c'']
   \<and> map (\<lambda>x. (alert_type x, transaction_ids x))
     (fst (monitor_transaction
        (run [mk_transaction ''tx_a'' ''user_001'' 9400 ''USD'' WITHDRAWAL (100 * hour),
              mk_transaction ''tx_b'' ''user_001'' 9400 ''USD'' WITHDRAWAL (101 * hour)])
        (mk_transaction ''tx_c'' ''user_001'' 9400 ''USD'' WITHDRAWAL 0)))
     = [(STRUCTURING, [''tx_a'', ''tx_b'', ''tx_c''])]"
  by code_simp

end
